theory Spec2Isabelle
  imports Complex_Main
begin

section \<open>Data model (src/types.ts, src/constants.ts)\<close>

text \<open>
  The two string enums of \<^verbatim>\<open>types.ts\<close>. A TypeScript \<^verbatim>\<open>number\<close> that is only
  stored and copied (latitude, longitude) is a \<^typ>\<open>real\<close> here: the orchestrator never
  computes with it.
\<close>

datatype TreeHealth = GOOD | FAIR | CRITICAL | DEAD

datatype TreeSpecies = OAK | MAPLE | PINE | PALM | CHERRY | BIRCH | OTHER | UNKNOWN

text \<open>
  \<^verbatim>\<open>interface TreeRecord\<close>. The field \<^verbatim>\<open>id\<close> is called \<open>id_field\<close>, since \<open>id\<close> is the
  identity function of HOL; \<^verbatim>\<open>notes?: string\<close> is an optional string,
  called \<open>notes_field\<close> since \<open>notes\<close> is a keyword of the proof language. The fields of
  this record are always written with their qualified names, because \<^verbatim>\<open>MapLocation\<close>
  and the form payload reuse \<open>lat\<close>, \<open>lng\<close>, \<open>species\<close>, \<open>condition\<close> and \<open>notes_field\<close>.
\<close>

record TreeRecord =
  id_field :: string
  lat :: real
  lng :: real
  species :: TreeSpecies
  condition :: TreeHealth
  dateAdded :: string
  notes_field :: "string option"

record MapLocation =
  lat :: real
  lng :: real

text \<open>The object \<^verbatim>\<open>{ species, condition, notes }\<close> that the modal hands to \<^verbatim>\<open>onSave\<close>.\<close>

record FormData =
  species :: TreeSpecies
  condition :: TreeHealth
  notes_field :: string

definition DEFAULT_CENTER :: MapLocation where
  "DEFAULT_CENTER = \<lparr>lat = 28.6328, lng = 77.2197\<rparr>"

text \<open>\<^verbatim>\<open>Object.values\<close> of the two enums, in the order of their declaration.\<close>

definition SPECIES_OPTIONS :: "TreeSpecies list" where
  "SPECIES_OPTIONS = [OAK, MAPLE, PINE, PALM, CHERRY, BIRCH, OTHER, UNKNOWN]"

definition HEALTH_OPTIONS :: "TreeHealth list" where
  "HEALTH_OPTIONS = [GOOD, FAIR, CRITICAL, DEAD]"

section \<open>Rendering a length in a template literal\<close>

definition digit_char :: "nat \<Rightarrow> char" where
  "digit_char d = ''0123456789'' ! d"

function show_nat :: "nat \<Rightarrow> string" where
  "show_nat n = (if n < 10 then [digit_char n] else show_nat (n div 10) @ [digit_char (n mod 10)])"
  by pat_completeness auto
termination
  by (relation "measure (\<lambda>n. n)") auto

declare show_nat.simps [simp del]

section \<open>The orchestrator (src/unnamed/part\_000, the component App)\<close>

datatype ViewMode = ViewMap | ViewStreet

text \<open>
  The \<^verbatim>\<open>useState\<close> cells of \<^verbatim>\<open>App\<close>, and \<open>storage\<close>: the list last handed to
  \<^verbatim>\<open>saveTreesToStorage\<close> by the effect that runs whenever \<^verbatim>\<open>trees\<close> is set.
\<close>

record App =
  trees :: "TreeRecord list"
  isModalOpen :: bool
  tempLocation :: "MapLocation option"
  userLocation :: "MapLocation option"
  notification :: "string option"
  viewMode :: ViewMode
  streetViewPos :: MapLocation
  storage :: "TreeRecord list"

text \<open>\<^verbatim>\<open>setTrees(f)\<close> followed by the auto-save effect on \<^verbatim>\<open>[trees]\<close>.\<close>

definition setTrees :: "(TreeRecord list \<Rightarrow> TreeRecord list) \<Rightarrow> App \<Rightarrow> App" where
  "setTrees f st = (let t = f (trees st) in st\<lparr>trees := t, storage := t\<rparr>)"

text \<open>
  \<^verbatim>\<open>showNotification\<close> sets the message; the timer it starts fires three seconds later
  as the separate event \<open>notificationTimeout\<close>.
\<close>

definition showNotification :: "string \<Rightarrow> App \<Rightarrow> App" where
  "showNotification msg st = st\<lparr>notification := Some msg\<rparr>"

definition notificationTimeout :: "App \<Rightarrow> App" where
  "notificationTimeout st = st\<lparr>notification := None\<rparr>"

definition handleMapClick :: "MapLocation \<Rightarrow> App \<Rightarrow> App" where
  "handleMapClick loc st =
     (if viewMode st = ViewStreet then st\<lparr>streetViewPos := loc\<rparr>
      else st\<lparr>tempLocation := Some loc, isModalOpen := True\<rparr>)"

definition handleStreetViewAnnotate :: "MapLocation \<Rightarrow> App \<Rightarrow> App" where
  "handleStreetViewAnnotate loc st = st\<lparr>tempLocation := Some loc, isModalOpen := True\<rparr>"

definition handleCloseModal :: "App \<Rightarrow> App" where
  "handleCloseModal st = st\<lparr>isModalOpen := False, tempLocation := None\<rparr>"

text \<open>
  \<^verbatim>\<open>handleSaveTree\<close>. The results of \<^verbatim>\<open>crypto.randomUUID()\<close> and of
  \<^verbatim>\<open>new Date().toLocaleDateString()\<close> come from the platform: they are the arguments
  \<open>uuid\<close> and \<open>today\<close>.
\<close>

definition handleSaveTree :: "string \<Rightarrow> string \<Rightarrow> FormData \<Rightarrow> App \<Rightarrow> App" where
  "handleSaveTree uuid today data st =
     (case tempLocation st of
        None \<Rightarrow> st
      | Some loc \<Rightarrow>
          (let newTree = \<lparr>TreeRecord.id_field = uuid,
                          TreeRecord.lat = lat loc,
                          TreeRecord.lng = lng loc,
                          TreeRecord.species = species data,
                          TreeRecord.condition = condition data,
                          TreeRecord.dateAdded = today,
                          TreeRecord.notes_field = Some (notes_field data)\<rparr>
           in showNotification ''Tree labelled successfully!''
                (handleCloseModal (setTrees (\<lambda>prev. prev @ [newTree]) st))))"

definition handleImport :: "TreeRecord list \<Rightarrow> App \<Rightarrow> App" where
  "handleImport importedTrees st =
     (if length importedTrees = 0 then showNotification ''No valid records found in CSV.'' st
      else showNotification (''Imported '' @ show_nat (length importedTrees) @ '' trees.'')
             (setTrees (\<lambda>prev.
                  let existingIds = set (map TreeRecord.id_field prev);
                      uniqueNew = filter (\<lambda>t. TreeRecord.id_field t \<notin> existingIds) importedTrees
                  in prev @ uniqueNew) st))"

definition toggleViewMode :: "App \<Rightarrow> App" where
  "toggleViewMode st =
     (if viewMode st = ViewMap
      then st\<lparr>viewMode := ViewStreet,
              streetViewPos := (case userLocation st of Some loc \<Rightarrow> loc | None \<Rightarrow> DEFAULT_CENTER)\<rparr>
      else st\<lparr>viewMode := ViewMap\<rparr>)"

text \<open>The initial values of the \<^verbatim>\<open>useState\<close> cells, before anything is loaded.\<close>

definition app0 :: App where
  "app0 = \<lparr>trees = [], isModalOpen = False, tempLocation = None, userLocation = None,
            notification = None, viewMode = ViewMap, streetViewPos = DEFAULT_CENTER,
            storage = []\<rparr>"

section \<open>The annotation form (src/components/AnnotationModal.tsx)\<close>

text \<open>
  The three \<^verbatim>\<open>useState\<close> cells of the modal are one \<open>FormData\<close>; the props are
  \<open>isOpen\<close> and \<open>location\<close>. The component returns \<^verbatim>\<open>null\<close> unless it is open with a
  location, and then no form exists that could be edited, submitted or cancelled.
\<close>

definition modal0 :: FormData where
  "modal0 = \<lparr>species = UNKNOWN, condition = GOOD, notes_field = ''''\<rparr>"

definition rendered :: "bool \<Rightarrow> MapLocation option \<Rightarrow> bool" where
  "rendered isOpen location = (\<not> (\<not> isOpen \<or> location = None))"

datatype Callback = OnSave FormData | OnClose

datatype ModalEvent =
    Submit | CloseClick | SetSpecies TreeSpecies | SetCondition TreeHealth | SetNotes string

text \<open>\<^verbatim>\<open>handleSubmit\<close>: the callbacks invoked, in order, and the cells afterwards.\<close>

definition handleSubmit :: "FormData \<Rightarrow> Callback list \<times> FormData" where
  "handleSubmit m =
     ([OnSave \<lparr>species = species m, condition = condition m, notes_field = notes_field m\<rparr>],
      m\<lparr>species := UNKNOWN, condition := GOOD, notes_field := ''''\<rparr>)"

definition modalEvent ::
  "bool \<Rightarrow> MapLocation option \<Rightarrow> ModalEvent \<Rightarrow> FormData \<Rightarrow> Callback list \<times> FormData" where
  "modalEvent isOpen location ev m =
     (if \<not> rendered isOpen location then ([], m)
      else case ev of
             Submit \<Rightarrow> handleSubmit m
           | CloseClick \<Rightarrow> ([OnClose], m)
           | SetSpecies opt \<Rightarrow> ([], m\<lparr>species := opt\<rparr>)
           | SetCondition opt \<Rightarrow> ([], m\<lparr>condition := opt\<rparr>)
           | SetNotes v \<Rightarrow> ([], m\<lparr>notes_field := v\<rparr>))"

text \<open>
  \<^verbatim>\<open>App\<close> passes \<^verbatim>\<open>handleSaveTree\<close> as \<^verbatim>\<open>onSave\<close> and \<^verbatim>\<open>handleCloseModal\<close> as
  \<^verbatim>\<open>onClose\<close>.
\<close>

fun appCallback :: "string \<Rightarrow> string \<Rightarrow> Callback \<Rightarrow> App \<Rightarrow> App" where
  "appCallback uuid today (OnSave d) st = handleSaveTree uuid today d st"
| "appCallback uuid today OnClose st = handleCloseModal st"

section \<open>The street-level view (src/components/StreetView.tsx)\<close>

datatype Status = Idle | Searching | LoadingViewer | Ready | Error | NoCoverage

text \<open>A Mapillary viewer, as far as the component sees it: the image it shows.\<close>

record Viewer =
  imageId :: string

datatype ConsoleEntry = Warn string | Err string

text \<open>
  The cells of the component: \<^verbatim>\<open>viewerRef.current\<close> and the four \<^verbatim>\<open>useState\<close> cells.
  Two more fields record effects in the order they happen: \<open>statusLog\<close>, every argument of
  \<^verbatim>\<open>setStatus\<close>, and \<open>console\<close>, every \<^verbatim>\<open>console.warn\<close> and \<^verbatim>\<open>console.error\<close>.
\<close>

record StreetView =
  viewerRef :: "Viewer option"
  status :: Status
  errorMsg :: "string option"
  isLabeling :: bool
  currentImageLoc :: "MapLocation option"
  statusLog :: "Status list"
  console :: "ConsoleEntry list"

definition streetView0 :: StreetView where
  "streetView0 = \<lparr>viewerRef = None, status = Searching, errorMsg = None, isLabeling = False,
                   currentImageLoc = None, statusLog = [], console = []\<rparr>"

definition setStatus :: "Status \<Rightarrow> StreetView \<Rightarrow> StreetView" where
  "setStatus s st = st\<lparr>status := s, statusLog := statusLog st @ [s]\<rparr>"

definition setErrorMsg :: "string \<Rightarrow> StreetView \<Rightarrow> StreetView" where
  "setErrorMsg m st = st\<lparr>errorMsg := Some m\<rparr>"

definition consoleWarn :: "string \<Rightarrow> StreetView \<Rightarrow> StreetView" where
  "consoleWarn m st = st\<lparr>console := console st @ [Warn m]\<rparr>"

definition consoleError :: "string \<Rightarrow> StreetView \<Rightarrow> StreetView" where
  "consoleError m st = st\<lparr>console := console st @ [Err m]\<rparr>"

text \<open>
  What the backend request comes to: \<^verbatim>\<open>fetch\<close> or \<^verbatim>\<open>res.json()\<close> rejects with a
  message, the response is not ok and has a status code, or the body is read with its
  fields \<^verbatim>\<open>found\<close> and \<^verbatim>\<open>id\<close>.
\<close>

datatype Reply = Rejects string | NotOk nat | Data bool "string option"

text \<open>
  What the platform answers during one run of \<^verbatim>\<open>loadScene\<close>: whether
  \<^verbatim>\<open>window.mapillary\<close> is set at the n-th test of the polling loop, the reply of the
  backend, the value of \<^verbatim>\<open>isMounted\<close> at each place that reads it, whether
  \<^verbatim>\<open>moveToKey\<close> resolves, whether the container element is there, and whether the
  construction of the viewer returns rather than throws.
\<close>

record Env =
  mapillaryAt :: "nat \<Rightarrow> bool"
  backend :: Reply
  mountedAfterWait :: bool
  mountedAfterSearch :: bool
  moveToKeyOk :: bool
  containerPresent :: bool
  viewerOk :: bool
  mountedAtCatch :: bool
  mountedAtTimeout :: bool

text \<open>The polling loop of step A; the result is \<^verbatim>\<open>attempts\<close> when the loop ends.\<close>

function waitForMapillary :: "(nat \<Rightarrow> bool) \<Rightarrow> nat \<Rightarrow> nat" where
  "waitForMapillary avail attempts =
     (if \<not> avail attempts \<and> attempts < 50 then waitForMapillary avail (Suc attempts)
      else attempts)"
  by pat_completeness auto
termination
  by (relation "measure (\<lambda>(avail, attempts). 50 - attempts)") auto

declare waitForMapillary.simps [simp del]

text \<open>JavaScript truthiness of \<^verbatim>\<open>data.id\<close>: present and not the empty string.\<close>

fun truthy :: "string option \<Rightarrow> bool" where
  "truthy None = False"
| "truthy (Some s) = (s \<noteq> [])"

text \<open>The \<^verbatim>\<open>catch\<close> block of \<^verbatim>\<open>findNearestImage\<close>, given \<^verbatim>\<open>e.message\<close>.\<close>

definition searchFailed :: "string \<Rightarrow> StreetView \<Rightarrow> string option \<times> StreetView" where
  "searchFailed message st =
     (None, setErrorMsg (if message \<noteq> [] then message else ''Failed to connect to Backend'')
              (setStatus Error (consoleError ''Backend Fetch Error'' st)))"

definition findNearestImage :: "Reply \<Rightarrow> StreetView \<Rightarrow> string option \<times> StreetView" where
  "findNearestImage r st =
     (let st1 = setStatus Searching st in
      case r of
        Rejects message \<Rightarrow> searchFailed message st1
      | NotOk code \<Rightarrow>
          searchFailed (''Backend connection failed ('' @ show_nat code @ ''). Is main.py running?'') st1
      | Data found ident \<Rightarrow>
          if found \<and> truthy ident then (ident, st1) else (None, setStatus NoCoverage st1))"

text \<open>Step C, first half: a viewer exists, so it is moved.\<close>

definition moveViewer :: "Env \<Rightarrow> string \<Rightarrow> StreetView \<Rightarrow> StreetView" where
  "moveViewer env k st =
     (case viewerRef st of
        None \<Rightarrow> st
      | Some v \<Rightarrow>
          if moveToKeyOk env then setStatus Ready (st\<lparr>viewerRef := Some (v\<lparr>imageId := k\<rparr>)\<rparr>)
          else (consoleWarn ''Move failed, recreating viewer...'' st)\<lparr>viewerRef := None\<rparr>)"

text \<open>Step C, second half: no viewer exists (any more), so one is constructed.\<close>

definition createViewer :: "Env \<Rightarrow> string \<Rightarrow> StreetView \<Rightarrow> StreetView" where
  "createViewer env k st =
     (if viewerRef st = None \<and> containerPresent env then
        (let st1 = setStatus LoadingViewer st in
         if viewerOk env then st1\<lparr>viewerRef := Some \<lparr>imageId = k\<rparr>\<rparr>
         else (let st2 = consoleError ''Viewer Init Error'' st1 in
               if mountedAtCatch env
               then setErrorMsg ''Could not start Mapillary Viewer'' (setStatus Error st2)
               else st2))
      else st)"

definition loadScene :: "Env \<Rightarrow> StreetView \<Rightarrow> StreetView" where
  "loadScene env st =
     (let attempts = waitForMapillary (mapillaryAt env) 0 in
      if \<not> mapillaryAt env attempts then
        (if mountedAfterWait env
         then setErrorMsg ''Mapillary JS library failed to load. Check internet connection.''
                (setStatus Error st)
         else st)
      else
        (case findNearestImage (backend env) st of
           (imgId, st1) \<Rightarrow>
             if \<not> mountedAfterSearch env then st1
             else (case imgId of
                     None \<Rightarrow> st1
                   | Some k \<Rightarrow> createViewer env k (moveViewer env k st1))))"

text \<open>The cleanup of the effect, run before the next run and at unmount.\<close>

definition cleanup :: "StreetView \<Rightarrow> StreetView" where
  "cleanup st = st\<lparr>viewerRef := None\<rparr>"

text \<open>A change of \<^verbatim>\<open>position.lat\<close> or \<^verbatim>\<open>position.lng\<close>: the cleanup, then a new run.\<close>

definition positionChange :: "Env \<Rightarrow> StreetView \<Rightarrow> StreetView" where
  "positionChange env st = loadScene env (cleanup st)"

text \<open>
  The two listeners put on a constructed viewer. Each carries the \<^verbatim>\<open>isMounted\<close> of its
  run; \<open>Image\<close> carries the location of \<^verbatim>\<open>node.image\<close> when the node has one. A viewer
  that does not exist emits nothing. The second component of the result is the argument
  of \<^verbatim>\<open>onPositionChange\<close>, when it is called.
\<close>

datatype ViewerEvent = Image bool "MapLocation option" | Load bool

fun viewerEvent :: "ViewerEvent \<Rightarrow> StreetView \<Rightarrow> StreetView \<times> MapLocation option" where
  "viewerEvent (Image mounted node) st =
     (if viewerRef st = None \<or> \<not> mounted then (st, None)
      else case node of
             None \<Rightarrow> (st, None)
           | Some loc \<Rightarrow> (setStatus Ready (st\<lparr>currentImageLoc := Some loc\<rparr>), Some loc))"
| "viewerEvent (Load mounted) st =
     (if viewerRef st = None \<or> \<not> mounted then (st, None) else (setStatus Ready st, None))"

fun viewerEvents :: "ViewerEvent list \<Rightarrow> StreetView \<Rightarrow> StreetView" where
  "viewerEvents [] st = st"
| "viewerEvents (e # es) st = viewerEvents es (fst (viewerEvent e st))"

text \<open>The button of the error panel that sets the status back to searching.\<close>

definition dismiss :: "StreetView \<Rightarrow> StreetView" where
  "dismiss st = setStatus Searching st"

definition toggleLabelMode :: "StreetView \<Rightarrow> StreetView" where
  "toggleLabelMode st = st\<lparr>isLabeling := \<not> isLabeling st\<rparr>"

text \<open>\<^verbatim>\<open>handleOverlayClick\<close>; the second component is the argument of \<^verbatim>\<open>onAnnotate\<close>.\<close>

definition handleOverlayClick :: "StreetView \<Rightarrow> StreetView \<times> MapLocation option" where
  "handleOverlayClick st =
     (case currentImageLoc st of
        Some loc \<Rightarrow> if isLabeling st then (st\<lparr>isLabeling := False\<rparr>, Some loc) else (st, None)
      | None \<Rightarrow> (st, None))"

section \<open>The earlier street-level view (src/unnamed/part\_003)\<close>






text \<open>
  The record of the spec's example: a tree saved at (28.6328, 77.2197) with species Oak
  and condition Good; and a second one.
\<close>

definition tree_a :: TreeRecord where
  "tree_a = \<lparr>TreeRecord.id_field = ''a'', TreeRecord.lat = 28.6328, TreeRecord.lng = 77.2197,
             TreeRecord.species = OAK, TreeRecord.condition = GOOD,
             TreeRecord.dateAdded = ''11/1/2026'', TreeRecord.notes_field = Some ''''\<rparr>"



text \<open>
  Environments and a state for the examples: everything succeeds and the backend finds
  the image \<open>img1\<close>; the library never loads. \<open>streetViewWithViewer\<close> is a view
  that shows the image \<open>img0\<close>.
\<close>

definition env_ok :: Env where
  "env_ok = \<lparr>mapillaryAt = (\<lambda>n. True), backend = Data True (Some ''img1''),
              mountedAfterWait = True, mountedAfterSearch = True, moveToKeyOk = True,
              containerPresent = True, viewerOk = True, mountedAtCatch = True,
              mountedAtTimeout = True\<rparr>"

definition env_no_library :: Env where
  "env_no_library = env_ok\<lparr>mapillaryAt := (\<lambda>n. False)\<rparr>"




definition streetViewWithViewer :: StreetView where
  "streetViewWithViewer = streetView0\<lparr>viewerRef := Some \<lparr>imageId = ''img0''\<rparr>, status := Ready\<rparr>"

section \<open>The tabular codec (utils/storage: generateCSV and parseCSV)\<close>

text \<open>
  The names of the enumeration members, from \<^verbatim>\<open>types.ts\<close>.
\<close>

fun healthName :: "TreeHealth \<Rightarrow> string" where
  "healthName GOOD = ''Good''"
| "healthName FAIR = ''Fair''"
| "healthName CRITICAL = ''Critical''"
| "healthName DEAD = ''Dead''"

fun speciesName :: "TreeSpecies \<Rightarrow> string" where
  "speciesName OAK = ''Oak''"
| "speciesName MAPLE = ''Maple''"
| "speciesName PINE = ''Pine''"
| "speciesName PALM = ''Palm''"
| "speciesName CHERRY = ''Cherry''"
| "speciesName BIRCH = ''Birch''"
| "speciesName OTHER = ''Other''"
| "speciesName UNKNOWN = ''Unknown''"

text \<open>
  Modelled from the spec: reading a name back in the missing \<^verbatim>\<open>parseCSV\<close>; a string that
  is the name of no member has no value, and the caller takes the sentinel.
\<close>

definition healthOfName :: "string \<Rightarrow> TreeHealth option" where
  "healthOfName s = map_of (map (\<lambda>h. (healthName h, h)) HEALTH_OPTIONS) s"

text \<open>Modelled from the spec: the same for the species field of the missing \<^verbatim>\<open>parseCSV\<close>.\<close>

definition speciesOfName :: "string \<Rightarrow> TreeSpecies option" where
  "speciesOfName s = map_of (map (\<lambda>h. (speciesName h, h)) SPECIES_OPTIONS) s"

text \<open>
  Modelled from the spec: the module \<^verbatim>\<open>utils/storage\<close>, which defines \<^verbatim>\<open>generateCSV\<close>
  and \<^verbatim>\<open>parseCSV\<close>, is not among the sources (only its caller \<^verbatim>\<open>MissionControl\<close> is).
  What the spec leaves to the platform or does not name is a field of \<open>CodecEnv\<close>: how a
  number is printed and read (reading may fail), and the two sentinel values.
\<close>

record CodecEnv =
  showNum :: "real \<Rightarrow> string"
  parseNum :: "string \<Rightarrow> real option"
  speciesFallback :: TreeSpecies
  conditionFallback :: TreeHealth

text \<open>
  Modelled from the spec: the characters of the format in \<^verbatim>\<open>utils/storage\<close>: the
  delimiter of a comma-separated file, the quote, and the two line-ending characters.
\<close>

definition comma :: char where "comma = CHR 0x2C"
definition dquote :: char where "dquote = CHR 0x22"
definition LF :: char where "LF = CHR 0x0A"
definition CR :: char where "CR = CHR 0x0D"

text \<open>Modelled from the spec: \<^verbatim>\<open>Array.join\<close>, used by the missing \<^verbatim>\<open>generateCSV\<close>.\<close>

fun joinWith :: "string \<Rightarrow> string list \<Rightarrow> string" where
  "joinWith sep [] = []"
| "joinWith sep [x] = x"
| "joinWith sep (x # y # ys) = x @ sep @ joinWith sep (y # ys)"



text \<open>Modelled from the spec: the header row of \<^verbatim>\<open>generateCSV\<close>.\<close>

definition csvHeader :: string where
  "csvHeader = ''id,lat,lng,species,condition,dateAdded,notes''"



text \<open>Modelled from the spec: \<^verbatim>\<open>String.split\<close> at one character, used by the missing \<^verbatim>\<open>parseCSV\<close>.\<close>

fun splitOn :: "char \<Rightarrow> string \<Rightarrow> string list" where
  "splitOn c [] = [[]]"
| "splitOn c (x # xs) =
     (if x = c then [] # splitOn c xs
      else (case splitOn c xs of w # ws \<Rightarrow> (x # w) # ws | [] \<Rightarrow> [[x]]))"

text \<open>
  Modelled from the spec: the lines of the text in \<^verbatim>\<open>parseCSV\<close> ("must tolerate ...
  varying line endings"): the text is cut at every line feed and a carriage return at the
  end of a line is dropped.
\<close>

definition stripCR :: "string \<Rightarrow> string" where
  "stripCR l = (if l \<noteq> [] \<and> last l = CR then butlast l else l)"

text \<open>Modelled from the spec: the lines of the missing \<^verbatim>\<open>parseCSV\<close>, line endings removed.\<close>

definition splitLines :: "string \<Rightarrow> string list" where
  "splitLines text = map stripCR (splitOn LF text)"

text \<open>
  Modelled from the spec: the fields of one line in \<^verbatim>\<open>parseCSV\<close>, the inverse of the
  quoting: outside quotes a comma ends the field and a quote opens a quoted part; inside
  quotes a doubled quote is one quote and a single quote closes the quoted part. The
  arguments are the flag "inside quotes", the field read so far, and the rest of the line.
\<close>

fun scanFields :: "bool \<Rightarrow> string \<Rightarrow> string \<Rightarrow> string list" where
  "scanFields inQuotes cur [] = [cur]"
| "scanFields True cur [c] = (if c = dquote then [cur] else [cur @ [c]])"
| "scanFields True cur (c # d # cs) =
     (if c = dquote then
        (if d = dquote then scanFields True (cur @ [dquote]) cs else scanFields False cur (d # cs))
      else scanFields True (cur @ [c]) (d # cs))"
| "scanFields False cur (c # cs) =
     (if c = dquote then scanFields True cur cs
      else if c = comma then cur # scanFields False [] cs
      else scanFields False (cur @ [c]) cs)"

text \<open>Modelled from the spec: the fields of a whole line in the missing \<^verbatim>\<open>parseCSV\<close>.\<close>

definition parseFields :: "string \<Rightarrow> string list" where
  "parseFields line = scanFields False [] line"

text \<open>
  Modelled from the spec: one row of \<^verbatim>\<open>parseCSV\<close> ("skipping rows that fail to parse
  (malformed field count, unparseable coordinates) ...; unknown species/condition strings
  fall back to a sentinel value"). A row has seven fields; the notes are the last one.
\<close>

definition decodeRow :: "CodecEnv \<Rightarrow> string \<Rightarrow> TreeRecord option" where
  "decodeRow env line =
     (case parseFields line of
        [f_id, f_lat, f_lng, f_sp, f_co, f_da, f_no] \<Rightarrow>
          (case (parseNum env f_lat, parseNum env f_lng) of
             (Some x, Some y) \<Rightarrow>
               Some \<lparr>TreeRecord.id_field = f_id, TreeRecord.lat = x, TreeRecord.lng = y,
                     TreeRecord.species =
                       (case speciesOfName f_sp of Some s \<Rightarrow> s | None \<Rightarrow> speciesFallback env),
                     TreeRecord.condition =
                       (case healthOfName f_co of Some h \<Rightarrow> h | None \<Rightarrow> conditionFallback env),
                     TreeRecord.dateAdded = f_da, TreeRecord.notes_field = Some f_no\<rparr>
           | _ \<Rightarrow> None)
      | _ \<Rightarrow> None)"

text \<open>
  Modelled from the spec: the loop of \<^verbatim>\<open>parseCSV\<close> over the rows, which collects the
  records of the rows that parse and goes on after a row that does not.
\<close>

fun parseRows :: "CodecEnv \<Rightarrow> string list \<Rightarrow> TreeRecord list \<Rightarrow> TreeRecord list" where
  "parseRows env [] acc = acc"
| "parseRows env (l # ls) acc =
     (case decodeRow env l of
        None \<Rightarrow> parseRows env ls acc
      | Some t \<Rightarrow> parseRows env ls (acc @ [t]))"

text \<open>
  Modelled from the spec: \<^verbatim>\<open>parseCSV\<close> of \<^verbatim>\<open>utils/storage\<close>: the first line is the
  header, every other line is a row.
\<close>

definition parseCSV :: "CodecEnv \<Rightarrow> string \<Rightarrow> TreeRecord list" where
  "parseCSV env text = parseRows env (tl (splitLines text)) []"

text \<open>
  An example platform for the codec: it prints and reads the four numbers of the example
  records and reads nothing else; the sentinels are Unknown and Good.
\<close>

definition env_codec :: CodecEnv where
  "env_codec =
     \<lparr>showNum = (\<lambda>x. if x = 28.6328 then ''28.6328'' else if x = 77.2197 then ''77.2197''
                      else if x = 51.5 then ''51.5'' else ''0''),
      parseNum = map_of [(''28.6328'', 28.6328), (''77.2197'', 77.2197), (''51.5'', 51.5), (''0'', 0)],
      speciesFallback = UNKNOWN,
      conditionFallback = GOOD\<rparr>"

text \<open>
  An example file with carriage returns before the line feeds and a blank last line: a row
  of the example record, a row with eight fields, a row whose latitude is not a number, and
  a row with a species and a condition that are no members of the enumerations.
\<close>

definition example_header :: string where
  "example_header = csvHeader @ [CR]"

definition example_rows :: "string list" where
  "example_rows =
     [''a,28.6328,77.2197,Oak,Good,11/1/2026,'' @ [CR],
      ''x,0,0,Elm,Bad,d,n,extra'' @ [CR],
      ''y,zero,0,Oak,Good,d,n'' @ [CR],
      ''z,51.5,0,Elm,Bad,d,n'' @ [CR],
      []]"

definition tree_z :: TreeRecord where
  "tree_z = \<lparr>TreeRecord.id_field = ''z'', TreeRecord.lat = 51.5, TreeRecord.lng = 0,
             TreeRecord.species = UNKNOWN, TreeRecord.condition = GOOD,
             TreeRecord.dateAdded = ''d'', TreeRecord.notes_field = Some ''n''\<rparr>"

section \<open>Facts about lists of records\<close>

lemma trees_handleImport:
  "trees (handleImport imp st) =
     trees st @ filter (\<lambda>t. TreeRecord.id_field t \<notin> TreeRecord.id_field ` set (trees st)) imp"
  by (simp add: handleImport_def showNotification_def setTrees_def Let_def)

section \<open>Map clicks\<close>

text \<open>
  C7. A map click in split layout (street mode) makes the clicked coordinate the new
  street-level position and leaves the form closed or open as it was, with the pending
  coordinate untouched; a map click in map-only layout makes the clicked coordinate the
  pending coordinate and opens the form, with the street-level position untouched. Nothing
  else of the state changes in either case.
\<close>

theorem handleMapClick_routes:
  "(viewMode st = ViewStreet \<longrightarrow>
      handleMapClick loc st = st\<lparr>streetViewPos := loc\<rparr> \<and>
      streetViewPos (handleMapClick loc st) = loc \<and>
      isModalOpen (handleMapClick loc st) = isModalOpen st \<and>
      tempLocation (handleMapClick loc st) = tempLocation st) \<and>
   (viewMode st = ViewMap \<longrightarrow>
      handleMapClick loc st = st\<lparr>tempLocation := Some loc, isModalOpen := True\<rparr> \<and>
      tempLocation (handleMapClick loc st) = Some loc \<and>
      isModalOpen (handleMapClick loc st) \<and>
      streetViewPos (handleMapClick loc st) = streetViewPos st)"
  by (simp add: handleMapClick_def)

theorem handleMapClick_routes_witness:
  "viewMode app0 = ViewMap \<and>
   tempLocation (handleMapClick \<lparr>lat = 1, lng = 2\<rparr> app0) = Some \<lparr>lat = 1, lng = 2\<rparr> \<and>
   isModalOpen (handleMapClick \<lparr>lat = 1, lng = 2\<rparr> app0) \<and>
   streetViewPos (handleMapClick \<lparr>lat = 1, lng = 2\<rparr> app0) = DEFAULT_CENTER \<and>
   viewMode (toggleViewMode app0) = ViewStreet \<and>
   streetViewPos (handleMapClick \<lparr>lat = 1, lng = 2\<rparr> (toggleViewMode app0)) = \<lparr>lat = 1, lng = 2\<rparr> \<and>
   \<not> isModalOpen (handleMapClick \<lparr>lat = 1, lng = 2\<rparr> (toggleViewMode app0)) \<and>
   tempLocation (handleMapClick \<lparr>lat = 1, lng = 2\<rparr> (toggleViewMode app0)) = None"
  using handleMapClick_routes [of app0 "\<lparr>lat = 1, lng = 2\<rparr>"]
        handleMapClick_routes [of "toggleViewMode app0" "\<lparr>lat = 1, lng = 2\<rparr>"]
  by (simp add: app0_def toggleViewMode_def)

section \<open>Toggling the layout\<close>

text \<open>
  C8. Toggling from map-only to split sets the street-level position to the device
  location when one is known and to the default coordinate (28.6328, 77.2197) otherwise,
  whatever the street-level position was before.
\<close>

theorem toggleViewMode_centers:
  "viewMode st = ViewMap \<Longrightarrow>
     viewMode (toggleViewMode st) = ViewStreet \<and>
     (case userLocation st of
        Some loc \<Rightarrow> streetViewPos (toggleViewMode st) = loc
      | None \<Rightarrow> streetViewPos (toggleViewMode st) = \<lparr>lat = 28.6328, lng = 77.2197\<rparr>) \<and>
     toggleViewMode (st\<lparr>streetViewPos := p\<rparr>) = toggleViewMode st"
  by (simp add: toggleViewMode_def DEFAULT_CENTER_def split: option.split)

theorem toggleViewMode_centers_witness:
  "viewMode app0 = ViewMap \<and> userLocation app0 = None \<and>
   streetViewPos (toggleViewMode app0) = \<lparr>lat = 28.6328, lng = 77.2197\<rparr> \<and>
   streetViewPos (toggleViewMode (app0\<lparr>userLocation := Some \<lparr>lat = 51.5, lng = 0\<rparr>\<rparr>))
     = \<lparr>lat = 51.5, lng = 0\<rparr>"
  using toggleViewMode_centers [of app0]
        toggleViewMode_centers [of "app0\<lparr>userLocation := Some \<lparr>lat = 51.5, lng = 0\<rparr>\<rparr>"]
  by (simp add: app0_def)

section \<open>Import\<close>

text \<open>
  C10. An import whose decoded list is empty changes nothing but the notification: the
  tree list and the stored snapshot stay as they were.
\<close>

theorem handleImport_empty:
  "importedTrees = [] \<Longrightarrow>
     handleImport importedTrees st = st\<lparr>notification := Some ''No valid records found in CSV.''\<rparr> \<and>
     trees (handleImport importedTrees st) = trees st \<and>
     storage (handleImport importedTrees st) = storage st"
  by (simp add: handleImport_def showNotification_def)

theorem handleImport_empty_witness:
  "handleImport [] app0 = app0\<lparr>notification := Some ''No valid records found in CSV.''\<rparr> \<and>
   trees (handleImport [] app0) = [] \<and> storage (handleImport [] app0) = []"
  using handleImport_empty [of "[]" app0] by (simp add: app0_def)

text \<open>
  C2. The import at a failing input: a list that holds the same new identifier twice, for
  an empty store. Both records are appended, so the store grows by two while one
  identifier is new, and the identifiers of the store are no longer pairwise distinct.
\<close>

theorem handleImport_repeated_id:
  "trees (handleImport [tree_a, tree_a] app0) = [tree_a, tree_a] \<and>
   length (trees (handleImport [tree_a, tree_a] app0)) = length (trees app0) + 2 \<and>
   card (TreeRecord.id_field ` set [tree_a, tree_a] - TreeRecord.id_field ` set (trees app0)) = 1 \<and>
   \<not> distinct (map TreeRecord.id_field (trees (handleImport [tree_a, tree_a] app0)))"
  by (simp add: trees_handleImport app0_def)

section \<open>Saving a tree\<close>

text \<open>
  What a save with a pending coordinate does with the identifier and the date that the
  platform hands to it.
\<close>

lemma handleSaveTree_record:
  "tempLocation st = Some loc \<Longrightarrow>
     trees (handleSaveTree uuid today data st) =
       trees st @ [\<lparr>TreeRecord.id_field = uuid, TreeRecord.lat = lat loc, TreeRecord.lng = lng loc,
                     TreeRecord.species = species data, TreeRecord.condition = condition data,
                     TreeRecord.dateAdded = today,
                     TreeRecord.notes_field = Some (notes_field data)\<rparr>] \<and>
     storage (handleSaveTree uuid today data st) = trees (handleSaveTree uuid today data st) \<and>
     tempLocation (handleSaveTree uuid today data st) = None \<and>
     \<not> isModalOpen (handleSaveTree uuid today data st)"
  by (simp add: handleSaveTree_def showNotification_def handleCloseModal_def setTrees_def Let_def)

section \<open>Facts about the street-level view\<close>

lemma waitForMapillary_finds:
  "\<exists>n. attempts \<le> n \<and> n \<le> 50 \<and> avail n \<Longrightarrow> avail (waitForMapillary avail attempts)"
proof (induction avail attempts rule: waitForMapillary.induct)
  case (1 avail attempts)
  show ?case
  proof (cases "\<not> avail attempts \<and> attempts < 50")
    case True
    from "1.prems" obtain n where n: "attempts \<le> n" "n \<le> 50" "avail n" by blast
    with True have "Suc attempts \<le> n" by (metis Suc_leI le_neq_implies_less)
    with n have "avail (waitForMapillary avail (Suc attempts))"
      using "1.IH" [OF True] by blast
    with True show ?thesis by (subst waitForMapillary.simps) simp
  next
    case False
    from "1.prems" obtain n where n: "attempts \<le> n" "n \<le> 50" "avail n" by blast
    have "avail attempts"
    proof (cases "attempts < 50")
      case True
      with False show ?thesis by simp
    next
      case False
      with n have "n = attempts" by simp
      with n show ?thesis by simp
    qed
    with False show ?thesis by (subst waitForMapillary.simps) simp
  qed
qed

lemma waitForMapillary_gives_up:
  "\<forall>n. attempts \<le> n \<and> n \<le> 50 \<longrightarrow> \<not> avail n \<Longrightarrow> attempts \<le> 50 \<Longrightarrow>
     waitForMapillary avail attempts = 50"
proof (induction avail attempts rule: waitForMapillary.induct)
  case (1 avail attempts)
  show ?case
  proof (cases "attempts < 50")
    case True
    with "1.prems" have c: "\<not> avail attempts \<and> attempts < 50" by simp
    have "waitForMapillary avail (Suc attempts) = 50"
      using "1.IH" [OF c] "1.prems" True by simp
    with c show ?thesis by (subst waitForMapillary.simps) simp
  next
    case False
    with "1.prems" have "attempts = 50" by simp
    then show ?thesis by (subst waitForMapillary.simps) simp
  qed
qed

lemma library_loaded:
  "\<exists>n\<le>50. mapillaryAt env n \<Longrightarrow> mapillaryAt env (waitForMapillary (mapillaryAt env) 0)"
  by (rule waitForMapillary_finds) auto

lemma library_missing:
  "\<forall>n\<le>50. \<not> mapillaryAt env n \<Longrightarrow> \<not> mapillaryAt env (waitForMapillary (mapillaryAt env) 0)"
  using waitForMapillary_gives_up [of 0 "mapillaryAt env"] by simp

lemma findNearestImage_log:
  "\<exists>rest. statusLog (snd (findNearestImage r st)) = statusLog st @ Searching # rest \<and> Ready \<notin> set rest"
  by (cases r) (auto simp: findNearestImage_def searchFailed_def setStatus_def setErrorMsg_def
      consoleError_def Let_def)

lemma findNearestImage_viewerRef:
  "viewerRef (snd (findNearestImage r st)) = viewerRef st"
  by (cases r) (auto simp: findNearestImage_def searchFailed_def setStatus_def setErrorMsg_def
      consoleError_def Let_def)

lemma findNearestImage_Some:
  "fst (findNearestImage r st) = Some k \<longleftrightarrow> (r = Data True (Some k) \<and> k \<noteq> [])"
  by (cases r) (auto simp: findNearestImage_def searchFailed_def Let_def elim: truthy.elims)

lemma findNearestImage_found:
  "fst (findNearestImage r st) = Some k \<Longrightarrow> snd (findNearestImage r st) = setStatus Searching st"
  by (cases r) (auto simp: findNearestImage_def searchFailed_def Let_def split: if_splits)

lemma findNearestImage_status:
  "status (snd (findNearestImage r st)) =
     (case r of Data found ident \<Rightarrow> if found \<and> truthy ident then Searching else NoCoverage
      | _ \<Rightarrow> Error)"
  by (cases r) (auto simp: findNearestImage_def searchFailed_def setStatus_def setErrorMsg_def
      consoleError_def Let_def)

lemma moveViewer_None:
  "viewerRef st = None \<Longrightarrow> moveViewer env k st = st"
  by (simp add: moveViewer_def)

lemma createViewer_log:
  "\<exists>rest. statusLog (createViewer env k st) = statusLog st @ rest \<and> Ready \<notin> set rest"
  by (simp add: createViewer_def setStatus_def setErrorMsg_def consoleError_def Let_def)

lemma createViewer_viewerRef:
  "viewerRef st = None \<Longrightarrow> viewerRef (createViewer env k st) \<noteq> None \<Longrightarrow>
     viewerOk env \<and> containerPresent env"
  by (simp add: createViewer_def setStatus_def setErrorMsg_def consoleError_def Let_def
      split: if_splits)

lemma moveViewer_log:
  "\<exists>rest. statusLog (moveViewer env k st) = statusLog st @ rest \<and>
     (Ready \<in> set rest \<longrightarrow> viewerRef st \<noteq> None \<and> moveToKeyOk env)"
  by (simp add: moveViewer_def setStatus_def consoleWarn_def split: option.split)

lemma loadScene_no_library:
  "\<not> mapillaryAt env (waitForMapillary (mapillaryAt env) 0) \<Longrightarrow>
     loadScene env st =
       (if mountedAfterWait env
        then setErrorMsg ''Mapillary JS library failed to load. Check internet connection.''
               (setStatus Error st)
        else st)"
  by (simp add: loadScene_def)

lemma loadScene_stops:
  "mapillaryAt env (waitForMapillary (mapillaryAt env) 0) \<Longrightarrow>
     \<not> mountedAfterSearch env \<or> fst (findNearestImage (backend env) st) = None \<Longrightarrow>
     loadScene env st = snd (findNearestImage (backend env) st)"
  by (auto simp: loadScene_def split: prod.split)

lemma loadScene_found:
  "mapillaryAt env (waitForMapillary (mapillaryAt env) 0) \<Longrightarrow> mountedAfterSearch env \<Longrightarrow>
     fst (findNearestImage (backend env) st) = Some k \<Longrightarrow>
     loadScene env st = createViewer env k (moveViewer env k (setStatus Searching st))"
  using findNearestImage_found [of "backend env" st k]
  by (auto simp: loadScene_def split: prod.split)

lemma loadScene_log:
  "\<exists>rest. statusLog (loadScene env st) = statusLog st @ rest \<and>
     (Ready \<in> set rest \<longrightarrow>
        (\<exists>k. backend env = Data True (Some k) \<and> k \<noteq> []) \<and> viewerRef st \<noteq> None \<and> moveToKeyOk env)"
proof (cases "mapillaryAt env (waitForMapillary (mapillaryAt env) 0)")
  case False
  then show ?thesis
    by (simp add: loadScene_no_library setStatus_def setErrorMsg_def)
next
  case lib: True
  obtain r1 where r1: "statusLog (snd (findNearestImage (backend env) st)) = statusLog st @ Searching # r1"
    "Ready \<notin> set r1"
    using findNearestImage_log by blast
  show ?thesis
  proof (cases "\<not> mountedAfterSearch env \<or> fst (findNearestImage (backend env) st) = None")
    case True
    with lib r1 show ?thesis
      by (simp add: loadScene_stops)
  next
    case False
    then obtain k where k: "fst (findNearestImage (backend env) st) = Some k"
      and mounted: "mountedAfterSearch env" by auto
    from k have found: "backend env = Data True (Some k) \<and> k \<noteq> []"
      by (simp add: findNearestImage_Some)
    let ?s1 = "setStatus Searching st"
    obtain r2 where r2: "statusLog (moveViewer env k ?s1) = statusLog ?s1 @ r2"
      "Ready \<in> set r2 \<longrightarrow> viewerRef ?s1 \<noteq> None \<and> moveToKeyOk env"
      using moveViewer_log by blast
    obtain r3 where r3: "statusLog (createViewer env k (moveViewer env k ?s1)) =
        statusLog (moveViewer env k ?s1) @ r3" "Ready \<notin> set r3"
      using createViewer_log by blast
    have "loadScene env st = createViewer env k (moveViewer env k ?s1)"
      using lib mounted k by (rule loadScene_found)
    with r2 r3 found show ?thesis
      by (auto simp: setStatus_def)
  qed
qed

lemma loadScene_searching_first:
  assumes lib: "mapillaryAt env (waitForMapillary (mapillaryAt env) 0)"
  shows "\<exists>rest. statusLog (loadScene env st) = statusLog st @ Searching # rest"
proof (cases "\<not> mountedAfterSearch env \<or> fst (findNearestImage (backend env) st) = None")
  case True
  with lib show ?thesis
    using findNearestImage_log [of "backend env" st] by (auto simp: loadScene_stops)
next
  case False
  then obtain k where k: "fst (findNearestImage (backend env) st) = Some k"
    and mounted: "mountedAfterSearch env" by auto
  let ?s1 = "setStatus Searching st"
  obtain r2 where r2: "statusLog (moveViewer env k ?s1) = statusLog ?s1 @ r2"
    using moveViewer_log by blast
  obtain r3 where r3: "statusLog (createViewer env k (moveViewer env k ?s1)) =
      statusLog (moveViewer env k ?s1) @ r3"
    using createViewer_log by blast
  have "loadScene env st = createViewer env k (moveViewer env k ?s1)"
    using lib mounted k by (rule loadScene_found)
  with r2 r3 show ?thesis
    by (simp add: setStatus_def)
qed

lemma viewerEvent_viewerRef:
  "viewerRef (fst (viewerEvent e st)) = viewerRef st"
  by (cases e) (auto simp: setStatus_def split: option.split)

lemma viewerEvent_log:
  "\<exists>rest. statusLog (fst (viewerEvent e st)) = statusLog st @ rest \<and>
     (rest \<noteq> [] \<longrightarrow> viewerRef st \<noteq> None)"
  by (cases e) (auto simp: setStatus_def split: option.split)

lemma viewerEvents_log:
  "\<exists>rest. statusLog (viewerEvents es st) = statusLog st @ rest \<and>
     (rest \<noteq> [] \<longrightarrow> viewerRef st \<noteq> None)"
proof (induction es arbitrary: st)
  case Nil
  show ?case by simp
next
  case (Cons e es)
  obtain r1 where r1: "statusLog (fst (viewerEvent e st)) = statusLog st @ r1"
    "r1 \<noteq> [] \<longrightarrow> viewerRef st \<noteq> None"
    using viewerEvent_log by blast
  obtain r2 where r2: "statusLog (viewerEvents es (fst (viewerEvent e st))) =
      statusLog (fst (viewerEvent e st)) @ r2"
    "r2 \<noteq> [] \<longrightarrow> viewerRef (fst (viewerEvent e st)) \<noteq> None"
    using Cons.IH by blast
  from r1 r2 show ?case
    by (auto simp: viewerEvent_viewerRef)
qed

lemma loadScene_viewerRef:
  assumes none: "viewerRef st = None" and some: "viewerRef (loadScene env st) \<noteq> None"
  shows "(\<exists>k. backend env = Data True (Some k) \<and> k \<noteq> []) \<and> viewerOk env \<and> containerPresent env \<and>
     mountedAfterSearch env"
proof -
  have lib: "mapillaryAt env (waitForMapillary (mapillaryAt env) 0)"
    using none some by (auto simp: loadScene_def setStatus_def setErrorMsg_def split: if_splits)
  have go: "\<not> (\<not> mountedAfterSearch env \<or> fst (findNearestImage (backend env) st) = None)"
  proof
    assume "\<not> mountedAfterSearch env \<or> fst (findNearestImage (backend env) st) = None"
    then have "loadScene env st = snd (findNearestImage (backend env) st)"
      by (rule loadScene_stops [OF lib])
    with none some show False
      by (simp add: findNearestImage_viewerRef)
  qed
  then obtain k where k: "fst (findNearestImage (backend env) st) = Some k"
    and mounted: "mountedAfterSearch env" by auto
  let ?s1 = "setStatus Searching st"
  have "loadScene env st = createViewer env k (moveViewer env k ?s1)"
    using lib mounted k by (rule loadScene_found)
  moreover have "viewerRef ?s1 = None"
    using none by (simp add: setStatus_def)
  ultimately have "viewerOk env \<and> containerPresent env"
    using some createViewer_viewerRef [of ?s1 env k] by (simp add: moveViewer_None)
  with k mounted show ?thesis
    by (simp add: findNearestImage_Some)
qed
lemma positionChange_end:
  assumes lib: "\<exists>n\<le>50. mapillaryAt env n"
    and mounted: "mountedAfterSearch env" and cont: "containerPresent env"
    and mc: "mountedAtCatch env"
  shows "status (positionChange env st) =
           (case backend env of
              Data found ident \<Rightarrow>
                if found \<and> truthy ident then (if viewerOk env then LoadingViewer else Error)
                else NoCoverage
            | _ \<Rightarrow> Error)"
    and "backend env = Data True (Some k) \<Longrightarrow> k \<noteq> [] \<Longrightarrow> viewerOk env \<Longrightarrow>
           viewerRef (positionChange env st) = Some \<lparr>imageId = k\<rparr>"
proof -
  have l: "mapillaryAt env (waitForMapillary (mapillaryAt env) 0)"
    using lib by (rule library_loaded)
  show "status (positionChange env st) =
           (case backend env of
              Data found ident \<Rightarrow>
                if found \<and> truthy ident then (if viewerOk env then LoadingViewer else Error)
                else NoCoverage
            | _ \<Rightarrow> Error)"
  proof (cases "fst (findNearestImage (backend env) (cleanup st))")
    case None
    then have "loadScene env (cleanup st) = snd (findNearestImage (backend env) (cleanup st))"
      using l by (simp add: loadScene_stops)
    moreover have "\<not> (\<exists>k. backend env = Data True (Some k) \<and> k \<noteq> [])"
      using None findNearestImage_Some [of "backend env" "cleanup st"] by auto
    ultimately show ?thesis
      by (cases "backend env")
         (auto simp: positionChange_def findNearestImage_status elim: truthy.elims)
  next
    case (Some k)
    then have "loadScene env (cleanup st) =
        createViewer env k (moveViewer env k (setStatus Searching (cleanup st)))"
      using l mounted by (simp add: loadScene_found)
    moreover have "backend env = Data True (Some k) \<and> k \<noteq> []"
      using Some by (simp add: findNearestImage_Some)
    ultimately show ?thesis
      using cont mc
      by (simp add: positionChange_def moveViewer_def createViewer_def cleanup_def
          setStatus_def setErrorMsg_def consoleError_def Let_def)
  qed
  show "viewerRef (positionChange env st) = Some \<lparr>imageId = k\<rparr>"
    if "backend env = Data True (Some k)" "k \<noteq> []" "viewerOk env"
  proof -
    have "fst (findNearestImage (backend env) (cleanup st)) = Some k"
      using that by (simp add: findNearestImage_Some)
    then have "loadScene env (cleanup st) =
        createViewer env k (moveViewer env k (setStatus Searching (cleanup st)))"
      using l mounted by (simp add: loadScene_found)
    then show ?thesis
      using cont that
      by (simp add: positionChange_def moveViewer_def createViewer_def cleanup_def
          setStatus_def Let_def)
  qed
qed

lemma drop_log: "l' = l @ rest \<Longrightarrow> drop (length l) l' = rest"
  by simp

lemma ready_after_events:
  assumes "Ready \<in> set (drop (length (statusLog st)) (statusLog (viewerEvents evs (positionChange env st))))"
  shows "(\<exists>k. backend env = Data True (Some k) \<and> k \<noteq> []) \<and> viewerOk env \<and> containerPresent env \<and>
     mountedAfterSearch env"
proof -
  let ?s = "positionChange env st"
  obtain r1 where r1: "statusLog ?s = statusLog (cleanup st) @ r1"
    "Ready \<in> set r1 \<longrightarrow> viewerRef (cleanup st) \<noteq> None"
    unfolding positionChange_def using loadScene_log [of env "cleanup st"] by blast
  obtain r2 where r2: "statusLog (viewerEvents evs ?s) = statusLog ?s @ r2"
    "r2 \<noteq> [] \<longrightarrow> viewerRef ?s \<noteq> None"
    using viewerEvents_log by blast
  have c: "statusLog (cleanup st) = statusLog st" "viewerRef (cleanup st) = None"
    by (simp_all add: cleanup_def)
  from r1 r2 c have "statusLog (viewerEvents evs ?s) = statusLog st @ (r1 @ r2)" by simp
  then have "drop (length (statusLog st)) (statusLog (viewerEvents evs ?s)) = r1 @ r2"
    by (rule drop_log)
  with assms r1 c have "Ready \<in> set r2" by auto
  then have "viewerRef ?s \<noteq> None" using r2 by auto
  then show ?thesis
    unfolding positionChange_def using c(2) by (rule loadScene_viewerRef [rotated])
qed
lemma ex_le_50: "\<exists>n::nat. n \<le> 50"
  by (rule exI [of _ 0]) simp

lemma waitForMapillary_concrete:
  "waitForMapillary (\<lambda>n. True) 0 = 0" "waitForMapillary (\<lambda>n. False) 0 = 50"
  by code_simp+

section \<open>The status sequence of the street-level view\<close>

text \<open>
  C5, as stated, fails: when the Mapillary library has not loaded by the end of the
  polling, a change of the coordinate sets the status to error and never to searching.
  Here the first change ends in error and the second one starts there and writes error
  again.
\<close>

theorem positionChange_no_library_counterexample:
  "status (positionChange env_no_library streetView0) = Error \<and>
   statusLog (positionChange env_no_library (positionChange env_no_library streetView0))
     = [Error, Error] \<and>
   Searching \<notin> set (statusLog
     (positionChange env_no_library (positionChange env_no_library streetView0)))"
  by (simp add: positionChange_def loadScene_def cleanup_def env_no_library_def env_ok_def
      streetView0_def setStatus_def setErrorMsg_def waitForMapillary_concrete)

text \<open>
  C5, amended. A change of the requested coordinate discards the viewer and runs
  \<open>loadScene\<close>. If the library is there at one of the tests of the polling loop, the first
  status written is searching; if it is not, the only status written is error (when still
  mounted). In a run that stays mounted, with the library and the container there, the
  status at the end is no-coverage when the lookup found nothing, error when the lookup
  failed or the construction of the viewer threw, and loading-viewer when the viewer was
  constructed for the found image, from where the load or image event of the viewer sets
  ready. Whatever events follow, ready is written after a change only if the lookup
  returned a found, non-empty image identifier and the construction succeeded; and
  \<open>loadScene\<close> itself, entered with a viewer, writes ready only if the lookup found an
  identifier and the move succeeded.
\<close>

theorem positionChange_status_sequence:
  "((\<exists>n\<le>50. mapillaryAt env n) \<longrightarrow>
      (\<exists>rest. statusLog (positionChange env st) = statusLog st @ Searching # rest)) \<and>
   ((\<forall>n\<le>50. \<not> mapillaryAt env n) \<longrightarrow>
      statusLog (positionChange env st) =
        statusLog st @ (if mountedAfterWait env then [Error] else [])) \<and>
   ((\<exists>n\<le>50. mapillaryAt env n) \<and> mountedAfterSearch env \<and> containerPresent env \<and>
    mountedAtCatch env \<longrightarrow>
      status (positionChange env st) =
        (case backend env of
           Data found ident \<Rightarrow>
             if found \<and> truthy ident then (if viewerOk env then LoadingViewer else Error)
             else NoCoverage
         | _ \<Rightarrow> Error) \<and>
      (\<forall>k. backend env = Data True (Some k) \<and> k \<noteq> [] \<and> viewerOk env \<longrightarrow>
         viewerRef (positionChange env st) = Some \<lparr>imageId = k\<rparr> \<and>
         status (fst (viewerEvent (Load True) (positionChange env st))) = Ready \<and>
         status (fst (viewerEvent (Image True (Some loc)) (positionChange env st))) = Ready)) \<and>
   (Ready \<in> set (drop (length (statusLog st))
                   (statusLog (viewerEvents evs (positionChange env st)))) \<longrightarrow>
      (\<exists>k. backend env = Data True (Some k) \<and> k \<noteq> []) \<and> viewerOk env) \<and>
   (Ready \<in> set (drop (length (statusLog st)) (statusLog (loadScene env st))) \<longrightarrow>
      (\<exists>k. backend env = Data True (Some k) \<and> k \<noteq> []) \<and> viewerRef st \<noteq> None \<and> moveToKeyOk env)"
proof (intro conjI impI)
  assume "\<exists>n\<le>50. mapillaryAt env n"
  then have "mapillaryAt env (waitForMapillary (mapillaryAt env) 0)"
    by (rule library_loaded)
  then show "\<exists>rest. statusLog (positionChange env st) = statusLog st @ Searching # rest"
    using loadScene_searching_first [of env "cleanup st"]
    by (simp add: positionChange_def cleanup_def)
next
  assume "\<forall>n\<le>50. \<not> mapillaryAt env n"
  then have "\<not> mapillaryAt env (waitForMapillary (mapillaryAt env) 0)"
    by (rule library_missing)
  then show "statusLog (positionChange env st) =
      statusLog st @ (if mountedAfterWait env then [Error] else [])"
    by (simp add: positionChange_def loadScene_no_library cleanup_def setStatus_def
        setErrorMsg_def)
next
  assume h: "(\<exists>n\<le>50. mapillaryAt env n) \<and> mountedAfterSearch env \<and> containerPresent env \<and>
    mountedAtCatch env"
  then show "status (positionChange env st) =
        (case backend env of
           Data found ident \<Rightarrow>
             if found \<and> truthy ident then (if viewerOk env then LoadingViewer else Error)
             else NoCoverage
         | _ \<Rightarrow> Error)"
    by (simp add: positionChange_end(1))
  show "\<forall>k. backend env = Data True (Some k) \<and> k \<noteq> [] \<and> viewerOk env \<longrightarrow>
         viewerRef (positionChange env st) = Some \<lparr>imageId = k\<rparr> \<and>
         status (fst (viewerEvent (Load True) (positionChange env st))) = Ready \<and>
         status (fst (viewerEvent (Image True (Some loc)) (positionChange env st))) = Ready"
  proof (intro allI impI)
    fix k
    assume "backend env = Data True (Some k) \<and> k \<noteq> [] \<and> viewerOk env"
    with h have "viewerRef (positionChange env st) = Some \<lparr>imageId = k\<rparr>"
      by (simp add: positionChange_end(2))
    then show "viewerRef (positionChange env st) = Some \<lparr>imageId = k\<rparr> \<and>
         status (fst (viewerEvent (Load True) (positionChange env st))) = Ready \<and>
         status (fst (viewerEvent (Image True (Some loc)) (positionChange env st))) = Ready"
      by (simp add: setStatus_def)
  qed
next
  assume "Ready \<in> set (drop (length (statusLog st))
                   (statusLog (viewerEvents evs (positionChange env st))))"
  then have r: "(\<exists>k. backend env = Data True (Some k) \<and> k \<noteq> []) \<and> viewerOk env \<and>
      containerPresent env \<and> mountedAfterSearch env"
    by (rule ready_after_events)
  from r show "\<exists>k. backend env = Data True (Some k) \<and> k \<noteq> []" by blast
  from r show "viewerOk env" by blast
next
  assume a: "Ready \<in> set (drop (length (statusLog st)) (statusLog (loadScene env st)))"
  obtain rest where rest: "statusLog (loadScene env st) = statusLog st @ rest"
    "Ready \<in> set rest \<longrightarrow>
        (\<exists>k. backend env = Data True (Some k) \<and> k \<noteq> []) \<and> viewerRef st \<noteq> None \<and> moveToKeyOk env"
    using loadScene_log by blast
  from a rest have r: "(\<exists>k. backend env = Data True (Some k) \<and> k \<noteq> []) \<and> viewerRef st \<noteq> None \<and>
      moveToKeyOk env"
    by simp
  from r show "\<exists>k. backend env = Data True (Some k) \<and> k \<noteq> []" by blast
  from r show "viewerRef st \<noteq> None" by blast
  from r show "moveToKeyOk env" by blast
qed

theorem positionChange_status_sequence_witness:
  "mapillaryAt env_ok 0 \<and> mountedAfterSearch env_ok \<and> containerPresent env_ok \<and>
   mountedAtCatch env_ok \<and> backend env_ok = Data True (Some ''img1'') \<and> viewerOk env_ok \<and>
   statusLog (positionChange env_ok streetView0) = [Searching, LoadingViewer] \<and>
   status (positionChange env_ok streetView0) = LoadingViewer \<and>
   viewerRef (positionChange env_ok streetView0) = Some \<lparr>imageId = ''img1''\<rparr> \<and>
   statusLog (viewerEvents [Load True] (positionChange env_ok streetView0))
     = [Searching, LoadingViewer, Ready] \<and>
   \<not> mapillaryAt env_no_library 0 \<and>
   statusLog (positionChange env_no_library streetView0) = [Error] \<and>
   viewerRef streetViewWithViewer \<noteq> None \<and> moveToKeyOk env_ok \<and>
   statusLog (loadScene env_ok streetViewWithViewer) = [Searching, Ready]"
  using positionChange_status_sequence [of env_ok streetView0 DEFAULT_CENTER "[Load True]"]
        positionChange_status_sequence [of env_no_library streetView0 DEFAULT_CENTER "[]"]
        positionChange_status_sequence [of env_ok streetViewWithViewer DEFAULT_CENTER "[]"]
  by (simp add: positionChange_def loadScene_def cleanup_def env_no_library_def env_ok_def
      streetView0_def streetViewWithViewer_def setStatus_def setErrorMsg_def
      findNearestImage_def moveViewer_def createViewer_def Let_def waitForMapillary_concrete)

section \<open>The viewer across a change of the coordinate\<close>











section \<open>The annotation form\<close>

text \<open>
  C9. While the form is rendered (open, with a pending coordinate), a submit calls
  \<open>onSave\<close> exactly once, with the species, condition and notes of the form, and sets the
  three cells back to Unknown, Good and the empty string; a click on close calls only
  \<open>onClose\<close>, which in the orchestrator clears the pending coordinate, closes the form and
  leaves the tree list alone. While no coordinate is pending nothing is rendered, and no
  event calls anything or changes the cells.
\<close>

theorem modal_submit_and_cancel:
  "(rendered isOpen location \<longrightarrow>
      modalEvent isOpen location Submit m =
        ([OnSave \<lparr>species = species m, condition = condition m, notes_field = notes_field m\<rparr>],
         \<lparr>species = UNKNOWN, condition = GOOD, notes_field = []\<rparr>) \<and>
      modalEvent isOpen location CloseClick m = ([OnClose], m)) \<and>
   (location = None \<longrightarrow>
      \<not> rendered isOpen location \<and> modalEvent isOpen location ev m = ([], m)) \<and>
   tempLocation (appCallback uuid today OnClose st) = None \<and>
   \<not> isModalOpen (appCallback uuid today OnClose st) \<and>
   trees (appCallback uuid today OnClose st) = trees st \<and>
   storage (appCallback uuid today OnClose st) = storage st"
  by (simp add: modalEvent_def rendered_def handleSubmit_def handleCloseModal_def)

theorem modal_submit_and_cancel_witness:
  "rendered True (Some DEFAULT_CENTER) \<and>
   modalEvent True (Some DEFAULT_CENTER) Submit \<lparr>species = OAK, condition = FAIR, notes_field = ''tall''\<rparr>
     = ([OnSave \<lparr>species = OAK, condition = FAIR, notes_field = ''tall''\<rparr>], modal0) \<and>
   modalEvent True (Some DEFAULT_CENTER) CloseClick modal0 = ([OnClose], modal0) \<and>
   modalEvent True None Submit \<lparr>species = OAK, condition = FAIR, notes_field = ''tall''\<rparr>
     = ([], \<lparr>species = OAK, condition = FAIR, notes_field = ''tall''\<rparr>) \<and>
   tempLocation (appCallback ''u'' ''d'' OnClose (handleMapClick DEFAULT_CENTER app0)) = None"
  using modal_submit_and_cancel [of True "Some DEFAULT_CENTER"
          "\<lparr>species = OAK, condition = FAIR, notes_field = ''tall''\<rparr>" Submit "''u''" "''d''"
          "handleMapClick DEFAULT_CENTER app0"]
        modal_submit_and_cancel [of True "Some DEFAULT_CENTER" modal0 Submit]
        modal_submit_and_cancel [of True None
          "\<lparr>species = OAK, condition = FAIR, notes_field = ''tall''\<rparr>" Submit]
  by (simp add: rendered_def modal0_def)

section \<open>Facts about the tabular codec\<close>

lemma splitOn_nonempty: "splitOn c s \<noteq> []"
  by (induction s) (auto split: list.split)

lemma splitOn_plain: "c \<notin> set l \<Longrightarrow> splitOn c l = [l]"
  by (induction l) auto

lemma splitOn_append: "c \<notin> set l \<Longrightarrow> splitOn c (l @ c # rest) = l # splitOn c rest"
  by (induction l) (auto simp: splitOn_nonempty split: list.split)

lemma splitOn_joinWith:
  "ls \<noteq> [] \<Longrightarrow> \<forall>l \<in> set ls. c \<notin> set l \<Longrightarrow> splitOn c (joinWith [c] ls) = ls"
proof (induction "[c]" ls rule: joinWith.induct)
  case 1
  then show ?case by simp
next
  case (2 x)
  then show ?case by (simp add: splitOn_plain)
next
  case (3 x y ys)
  then show ?case by (simp add: splitOn_append)
qed






lemma comma_not_dquote: "comma \<noteq> dquote"
  by (simp add: comma_def dquote_def)

lemma scanFields_end: "scanFields False f (comma # rest) = f # scanFields False [] rest"
  by (simp add: comma_not_dquote)



lemma healthOfName_healthName: "healthOfName (healthName h) = Some h"
  by (cases h) (simp_all add: healthOfName_def HEALTH_OPTIONS_def)

lemma speciesOfName_speciesName: "speciesOfName (speciesName s) = Some s"
  by (cases s) (simp_all add: speciesOfName_def SPECIES_OPTIONS_def)

lemma healthOfName_None: "healthOfName n = None \<longleftrightarrow> (\<forall>h. n \<noteq> healthName h)"
proof
  assume "healthOfName n = None"
  then show "\<forall>h. n \<noteq> healthName h"
    using healthOfName_healthName by fastforce
next
  assume "\<forall>h. n \<noteq> healthName h"
  then have "n \<noteq> healthName GOOD" "n \<noteq> healthName FAIR" "n \<noteq> healthName CRITICAL"
    "n \<noteq> healthName DEAD" by blast+
  then show "healthOfName n = None"
    by (simp add: healthOfName_def HEALTH_OPTIONS_def)
qed

lemma speciesOfName_None: "speciesOfName n = None \<longleftrightarrow> (\<forall>s. n \<noteq> speciesName s)"
proof
  assume "speciesOfName n = None"
  then show "\<forall>s. n \<noteq> speciesName s"
    using speciesOfName_speciesName by fastforce
next
  assume "\<forall>s. n \<noteq> speciesName s"
  then have "n \<noteq> speciesName OAK" "n \<noteq> speciesName MAPLE" "n \<noteq> speciesName PINE"
    "n \<noteq> speciesName PALM" "n \<noteq> speciesName CHERRY" "n \<noteq> speciesName BIRCH"
    "n \<noteq> speciesName OTHER" "n \<noteq> speciesName UNKNOWN" by blast+
  then show "speciesOfName n = None"
    by (simp add: speciesOfName_def SPECIES_OPTIONS_def)
qed



lemma parseRows_map_filter:
  "parseRows env ls acc = acc @ List.map_filter (decodeRow env) ls"
  by (induction ls arbitrary: acc) (auto simp: List.map_filter_simps split: option.split)

lemma decodeRow_None:
  "decodeRow env line = None \<longleftrightarrow>
     length (parseFields line) \<noteq> 7 \<or> parseNum env (parseFields line ! 1) = None \<or>
     parseNum env (parseFields line ! 2) = None"
proof (cases "length (parseFields line) = 7")
  case True
  then obtain a b c d e f g where "parseFields line = [a, b, c, d, e, f, g]"
    by (auto simp: length_Suc_conv eval_nat_numeral)
  then show ?thesis
    by (auto simp: decodeRow_def split: option.splits)
next
  case False
  then have "decodeRow env line = None"
    by (auto simp: decodeRow_def split: list.splits)
  with False show ?thesis by simp
qed

lemma set_joinWith: "set (joinWith sep xs) \<subseteq> set sep \<union> \<Union> (set ` set xs)"
  by (induction sep xs rule: joinWith.induct) auto






lemma splitLines_joinWith:
  assumes "\<forall>l \<in> set ls. LF \<notin> set l" and "ls \<noteq> []"
  shows "splitLines (joinWith [LF] ls) = map stripCR ls"
  using assms by (simp add: splitLines_def splitOn_joinWith)

lemma parseCSV_lines:
  assumes "LF \<notin> set header" and "\<forall>l \<in> set rows. LF \<notin> set l"
  shows "parseCSV env (joinWith [LF] (header # rows)) =
     List.map_filter (\<lambda>l. decodeRow env (stripCR l)) rows"
proof -
  have "splitLines (joinWith [LF] (header # rows)) = map stripCR (header # rows)"
    using assms by (intro splitLines_joinWith) auto
  then have "parseCSV env (joinWith [LF] (header # rows)) =
      List.map_filter (decodeRow env) (map stripCR rows)"
    by (simp add: parseCSV_def parseRows_map_filter)
  also have "\<dots> = List.map_filter (\<lambda>l. decodeRow env (stripCR l)) rows"
    by (simp add: List.map_filter_def filter_map o_def)
  finally show ?thesis .
qed


section \<open>The round trip of the tabular codec\<close>




section \<open>Rows that do not parse\<close>

text \<open>
  C4. The decoding of a text, cut into a header line and rows at the line feeds, is the
  list of the records of the rows that parse, in their order: a row (a carriage return
  at its end dropped) is left out exactly when it does not have seven fields or its
  latitude or longitude field is not read as a number, and every other row gives its
  record, so a malformed row between other rows changes nothing else; an empty line is
  left out. In the record of a row that parses, a species or condition field that is the
  name of a member of the enumeration gives that member, and any other string gives the
  sentinel value instead of the row being dropped.
\<close>

theorem parseCSV_skips_malformed_rows:
  "(LF \<notin> set header \<and> (\<forall>l \<in> set rows. LF \<notin> set l) \<longrightarrow>
      parseCSV env (joinWith [LF] (header # rows)) =
        map (\<lambda>l. the (decodeRow env (stripCR l)))
          (filter (\<lambda>l. decodeRow env (stripCR l) \<noteq> None) rows)) \<and>
   (LF \<notin> set header \<and> (\<forall>l \<in> set (before @ bad # after). LF \<notin> set l) \<and>
    decodeRow env (stripCR bad) = None \<longrightarrow>
      parseCSV env (joinWith [LF] (header # before @ bad # after)) =
      parseCSV env (joinWith [LF] (header # before @ after))) \<and>
   (decodeRow env line = None \<longleftrightarrow>
      length (parseFields line) \<noteq> 7 \<or> parseNum env (parseFields line ! 1) = None \<or>
      parseNum env (parseFields line ! 2) = None) \<and>
   decodeRow env [] = None \<and>
   (decodeRow env line = Some r \<longrightarrow>
      (\<forall>s. parseFields line ! 3 = speciesName s \<longrightarrow> TreeRecord.species r = s) \<and>
      ((\<forall>s. parseFields line ! 3 \<noteq> speciesName s) \<longrightarrow>
         TreeRecord.species r = speciesFallback env) \<and>
      (\<forall>h. parseFields line ! 4 = healthName h \<longrightarrow> TreeRecord.condition r = h) \<and>
      ((\<forall>h. parseFields line ! 4 \<noteq> healthName h) \<longrightarrow>
         TreeRecord.condition r = conditionFallback env))"
proof (intro conjI impI)
  assume "LF \<notin> set header \<and> (\<forall>l \<in> set rows. LF \<notin> set l)"
  then show "parseCSV env (joinWith [LF] (header # rows)) =
        map (\<lambda>l. the (decodeRow env (stripCR l)))
          (filter (\<lambda>l. decodeRow env (stripCR l) \<noteq> None) rows)"
    by (simp add: parseCSV_lines List.map_filter_def)
next
  assume a: "LF \<notin> set header \<and> (\<forall>l \<in> set (before @ bad # after). LF \<notin> set l) \<and>
    decodeRow env (stripCR bad) = None"
  then have "parseCSV env (joinWith [LF] (header # before @ bad # after)) =
      List.map_filter (\<lambda>l. decodeRow env (stripCR l)) (before @ bad # after)"
    by (intro parseCSV_lines) auto
  moreover from a have "parseCSV env (joinWith [LF] (header # before @ after)) =
      List.map_filter (\<lambda>l. decodeRow env (stripCR l)) (before @ after)"
    by (intro parseCSV_lines) auto
  ultimately show "parseCSV env (joinWith [LF] (header # before @ bad # after)) =
      parseCSV env (joinWith [LF] (header # before @ after))"
    using a by (simp add: List.map_filter_def)
next
  show "decodeRow env line = None \<longleftrightarrow>
      length (parseFields line) \<noteq> 7 \<or> parseNum env (parseFields line ! 1) = None \<or>
      parseNum env (parseFields line ! 2) = None"
    by (rule decodeRow_None)
next
  show "decodeRow env [] = None"
    by (simp add: decodeRow_def parseFields_def)
next
  assume r: "decodeRow env line = Some r"
  then obtain a b c d e f g where l: "parseFields line = [a, b, c, d, e, f, g]"
    by (auto simp: decodeRow_def split: list.splits)
  from r l have sp: "TreeRecord.species r =
      (case speciesOfName d of Some s \<Rightarrow> s | None \<Rightarrow> speciesFallback env)"
    and co: "TreeRecord.condition r =
      (case healthOfName e of Some h \<Rightarrow> h | None \<Rightarrow> conditionFallback env)"
    by (auto simp: decodeRow_def split: option.splits)
  from l have i: "parseFields line ! 3 = d" "parseFields line ! 4 = e"
    by (simp_all add: eval_nat_numeral)
  show "\<forall>s. parseFields line ! 3 = speciesName s \<longrightarrow> TreeRecord.species r = s"
    using sp i by (auto simp: speciesOfName_speciesName)
  show "(\<forall>s. parseFields line ! 3 \<noteq> speciesName s) \<Longrightarrow>
      TreeRecord.species r = speciesFallback env"
    using sp i speciesOfName_None [of d] by simp
  show "\<forall>h. parseFields line ! 4 = healthName h \<longrightarrow> TreeRecord.condition r = h"
    using co i by (auto simp: healthOfName_healthName)
  show "(\<forall>h. parseFields line ! 4 \<noteq> healthName h) \<Longrightarrow>
      TreeRecord.condition r = conditionFallback env"
    using co i healthOfName_None [of e] by simp
qed

lemma example_rows_decoded:
  "map (\<lambda>l. the (decodeRow env_codec (stripCR l)))
     (filter (\<lambda>l. decodeRow env_codec (stripCR l) \<noteq> None) example_rows) = [tree_a, tree_z]"
  by (simp add: example_rows_def decodeRow_def parseFields_def stripCR_def env_codec_def
      tree_a_def tree_z_def speciesOfName_def healthOfName_def SPECIES_OPTIONS_def HEALTH_OPTIONS_def comma_def dquote_def CR_def)

lemma example_row_z:
  "decodeRow env_codec ''z,51.5,0,Elm,Bad,d,n'' = Some tree_z"
  by (simp add: decodeRow_def parseFields_def env_codec_def tree_z_def
      speciesOfName_def healthOfName_def SPECIES_OPTIONS_def HEALTH_OPTIONS_def comma_def dquote_def)

lemma example_one_line:
  "LF \<notin> set example_header" "\<forall>l \<in> set example_rows. LF \<notin> set l"
  by (simp_all add: example_header_def example_rows_def csvHeader_def LF_def CR_def)

theorem parseCSV_skips_malformed_rows_witness:
  "parseCSV env_codec (joinWith [LF] (example_header # example_rows)) = [tree_a, tree_z] \<and>
   TreeRecord.species tree_z = speciesFallback env_codec \<and>
   TreeRecord.condition tree_z = conditionFallback env_codec"
proof -
  have h: "LF \<notin> set example_header \<and> (\<forall>l \<in> set example_rows. LF \<notin> set l)"
    using example_one_line by simp
  note z = example_row_z
  have f: "parseFields ''z,51.5,0,Elm,Bad,d,n'' = [''z'', ''51.5'', ''0'', ''Elm'', ''Bad'', ''d'', ''n'']"
    by (simp add: parseFields_def comma_def dquote_def)
  have s: "\<forall>s. parseFields ''z,51.5,0,Elm,Bad,d,n'' ! 3 \<noteq> speciesName s"
  proof
    fix s show "parseFields ''z,51.5,0,Elm,Bad,d,n'' ! 3 \<noteq> speciesName s"
      by (cases s) (simp_all add: f eval_nat_numeral)
  qed
  have c: "\<forall>h. parseFields ''z,51.5,0,Elm,Bad,d,n'' ! 4 \<noteq> healthName h"
  proof
    fix h show "parseFields ''z,51.5,0,Elm,Bad,d,n'' ! 4 \<noteq> healthName h"
      by (cases h) (simp_all add: f eval_nat_numeral)
  qed
  note t = parseCSV_skips_malformed_rows [of example_header example_rows env_codec "[]" "[]" "[]"
      "''z,51.5,0,Elm,Bad,d,n''" tree_z]
  from t h have "parseCSV env_codec (joinWith [LF] (example_header # example_rows)) =
      map (\<lambda>l. the (decodeRow env_codec (stripCR l)))
        (filter (\<lambda>l. decodeRow env_codec (stripCR l) \<noteq> None) example_rows)"
    by blast
  then have p: "parseCSV env_codec (joinWith [LF] (example_header # example_rows)) = [tree_a, tree_z]"
    by (simp only: example_rows_decoded)
  from t z s c have "TreeRecord.species tree_z = speciesFallback env_codec"
    "TreeRecord.condition tree_z = conditionFallback env_codec"
    by blast+
  with p show ?thesis by blast
qed

end
